theory Spec2Isabelle
  imports Complex_Main
begin

section \<open>Go strings\<close>

text \<open>
  A Go \<open>string\<close> is a sequence of bytes; it is modelled as a \<open>char list\<close>. The functions
  of package \<open>strings\<close> that \<open>CleanResponse\<close> calls are transcribed from the Go standard
  library: \<open>HasPrefix\<close>, \<open>HasSuffix\<close>, \<open>TrimPrefix\<close>, \<open>TrimSuffix\<close>, \<open>Index\<close>,
  \<open>LastIndex\<close> (both return \<open>-1\<close> when the substring does not occur) and \<open>TrimSpace\<close>.
\<close>

definition HasPrefix :: "string \<Rightarrow> string \<Rightarrow> bool" where
  "HasPrefix s pre = (length s \<ge> length pre \<and> take (length pre) s = pre)"

definition HasSuffix :: "string \<Rightarrow> string \<Rightarrow> bool" where
  "HasSuffix s suf = (length s \<ge> length suf \<and> drop (length s - length suf) s = suf)"

definition TrimPrefix :: "string \<Rightarrow> string \<Rightarrow> string" where
  "TrimPrefix s pre = (if HasPrefix s pre then drop (length pre) s else s)"

definition TrimSuffix :: "string \<Rightarrow> string \<Rightarrow> string" where
  "TrimSuffix s suf = (if HasSuffix s suf then take (length s - length suf) s else s)"

fun Index :: "string \<Rightarrow> string \<Rightarrow> int" where
  "Index [] substr = (if substr = [] then 0 else -1)"
| "Index (c # s) substr =
     (if HasPrefix (c # s) substr then 0
      else (let i = Index s substr in if i = -1 then -1 else i + 1))"

fun LastIndex :: "string \<Rightarrow> string \<Rightarrow> int" where
  "LastIndex [] substr = (if substr = [] then 0 else -1)"
| "LastIndex (c # s) substr =
     (let i = LastIndex s substr in
      if i \<noteq> -1 then i + 1
      else if HasPrefix (c # s) substr then 0 else -1)"

text \<open>The slice expression \<open>s[lo : hi]\<close> for \<open>0 \<le> lo \<le> hi \<le> len(s)\<close>.\<close>

definition slice :: "string \<Rightarrow> int \<Rightarrow> int \<Rightarrow> string" where
  "slice s lo hi = take (nat (hi - lo)) (drop (nat lo) s)"

text \<open>
  \<open>strings.TrimSpace\<close> removes all leading and all trailing white space, as defined by
  \<open>unicode.IsSpace\<close>, decoding the bytes as UTF-8. A rune is white space exactly when
  its UTF-8 encoding is one of the byte sequences below: the six ASCII characters
  \<open>\t \n \v \f \r\<close> and space, U+0085, U+00A0, U+1680, U+2000 to U+200A, U+2028, U+2029,
  U+202F, U+205F and U+3000. An invalid byte decodes to U+FFFD with width one, which is
  not white space, and every encoding below starts with an ASCII or leading byte, so
  the first (last) rune of a string is white space exactly when one of the encodings
  is a prefix (suffix) of the string.
\<close>

definition space_encodings :: "string list" where
  "space_encodings =
    [[CHR 0x09], [CHR 0x0A], [CHR 0x0B], [CHR 0x0C], [CHR 0x0D], [CHR 0x20],
     [CHR 0xC2, CHR 0x85], [CHR 0xC2, CHR 0xA0],
     [CHR 0xE1, CHR 0x9A, CHR 0x80],
     [CHR 0xE2, CHR 0x80, CHR 0x80], [CHR 0xE2, CHR 0x80, CHR 0x81],
     [CHR 0xE2, CHR 0x80, CHR 0x82], [CHR 0xE2, CHR 0x80, CHR 0x83],
     [CHR 0xE2, CHR 0x80, CHR 0x84], [CHR 0xE2, CHR 0x80, CHR 0x85],
     [CHR 0xE2, CHR 0x80, CHR 0x86], [CHR 0xE2, CHR 0x80, CHR 0x87],
     [CHR 0xE2, CHR 0x80, CHR 0x88], [CHR 0xE2, CHR 0x80, CHR 0x89],
     [CHR 0xE2, CHR 0x80, CHR 0x8A],
     [CHR 0xE2, CHR 0x80, CHR 0xA8], [CHR 0xE2, CHR 0x80, CHR 0xA9],
     [CHR 0xE2, CHR 0x80, CHR 0xAF],
     [CHR 0xE2, CHR 0x81, CHR 0x9F],
     [CHR 0xE3, CHR 0x80, CHR 0x80]]"

text \<open>The width in bytes of the white-space rune at the start (end) of \<open>s\<close>, 0 if none.\<close>

definition leading_space :: "string \<Rightarrow> nat" where
  "leading_space s =
     (case find (\<lambda>e. HasPrefix s e) space_encodings of None \<Rightarrow> 0 | Some e \<Rightarrow> length e)"

definition trailing_space :: "string \<Rightarrow> nat" where
  "trailing_space s =
     (case find (\<lambda>e. HasSuffix s e) space_encodings of None \<Rightarrow> 0 | Some e \<Rightarrow> length e)"

function TrimLeftSpace :: "string \<Rightarrow> string" where
  "TrimLeftSpace s =
     (if leading_space s = 0 \<or> s = [] then s else TrimLeftSpace (drop (leading_space s) s))"
  by pat_completeness auto
termination
  by (relation "measure length") auto

function TrimRightSpace :: "string \<Rightarrow> string" where
  "TrimRightSpace s =
     (if trailing_space s = 0 \<or> s = [] then s
      else TrimRightSpace (take (length s - trailing_space s) s))"
  by pat_completeness auto
termination
  by (relation "measure length") auto

definition TrimSpace :: "string \<Rightarrow> string" where
  "TrimSpace s = TrimRightSpace (TrimLeftSpace s)"

section \<open>CleanResponse\<close>

definition CleanResponse :: "string \<Rightarrow> string" where
  "CleanResponse response =
     (let response1 = TrimPrefix response ''```json'';
          response2 = TrimSuffix response1 ''```'';
          start = Index response2 ''{'';
          end = LastIndex response2 ''}'';
          response3 = (if start \<noteq> -1 \<and> end \<noteq> -1 \<and> end > start
                       then slice response2 start (end + 1) else response2)
      in TrimSpace response3)"

text \<open>
  The hypothesis under which cleaning is stable: somewhere in the text a \<open>{\<close> is
  followed, later, by a \<open>}\<close>. Every text that contains a JSON object satisfies it.
\<close>

definition contains_object :: "string \<Rightarrow> bool" where
  "contains_object s = (CHR ''}'' \<in> set (dropWhile (\<lambda>x. x \<noteq> CHR ''{'') s))"

section \<open>Errors and panics\<close>

text \<open>
  A Go \<open>error\<close> value is either a plain message (\<open>errors.New\<close>, \<open>fmt.Errorf\<close> without
  \<open>%w\<close>) or the wrapper that \<open>fmt.Errorf(prefix + "%w", err)\<close> builds around \<open>err\<close>.
  A \<open>nil\<close> error is \<open>None\<close>. A function that can dereference \<open>nil\<close> has an \<open>outcome\<close>.
\<close>

datatype error = ErrorString string | WrapError string error

fun Error_text :: "error \<Rightarrow> string" where
  "Error_text (ErrorString msg) = msg"
| "Error_text (WrapError pre err) = pre @ Error_text err"

fun Unwrap :: "error \<Rightarrow> error option" where
  "Unwrap (ErrorString msg) = None"
| "Unwrap (WrapError pre err) = Some err"

datatype 'a outcome = Panics | Returns 'a

section \<open>Providers\<close>

text \<open>
  The three provider structs have the same two fields, \<open>apiKey\<close> and \<open>model\<close> (in this
  order below); the constructor of the datatype is the dynamic type behind the
  \<open>Provider\<close> interface, and each method dispatches on it.
\<close>

datatype Provider =
    TongYiProvider string string
  | ZhiPuProvider string string
  | ZhiPuViewProvider string string

definition NewTongYiProvider :: "string \<Rightarrow> string \<Rightarrow> Provider" where
  "NewTongYiProvider apiKey model = TongYiProvider apiKey model"

definition NewZhiPuProvider :: "string \<Rightarrow> string \<Rightarrow> Provider" where
  "NewZhiPuProvider apiKey model = ZhiPuProvider apiKey model"

definition NewZhiPuViewProvider :: "string \<Rightarrow> string \<Rightarrow> Provider" where
  "NewZhiPuViewProvider apiKey model = ZhiPuViewProvider apiKey model"

fun Name :: "Provider \<Rightarrow> string" where
  "Name (TongYiProvider apiKey model) = ''tongyi''"
| "Name (ZhiPuProvider apiKey model) = ''zhipu''"
| "Name (ZhiPuViewProvider apiKey model) = ''zhipu_view''"

fun Endpoint :: "Provider \<Rightarrow> string" where
  "Endpoint (TongYiProvider apiKey model) =
     ''https://dashscope.aliyuncs.com/compatible-mode/v1/chat/completions''"
| "Endpoint (ZhiPuProvider apiKey model) =
     ''https://open.bigmodel.cn/api/paas/v4/chat/completions''"
| "Endpoint (ZhiPuViewProvider apiKey model) =
     ''https://open.bigmodel.cn/api/paas/v4/images/generations''"

fun Headers :: "Provider \<Rightarrow> (string \<rightharpoonup> string)" where
  "Headers (TongYiProvider apiKey model) =
     [''Content-Type'' \<mapsto> ''application/json'', ''Authorization'' \<mapsto> ''Bearer '' @ apiKey]"
| "Headers (ZhiPuProvider apiKey model) =
     [''Content-Type'' \<mapsto> ''application/json'', ''Authorization'' \<mapsto> ''Bearer '' @ apiKey]"
| "Headers (ZhiPuViewProvider apiKey model) =
     [''Content-Type'' \<mapsto> ''application/json'', ''Authorization'' \<mapsto> ''Bearer '' @ apiKey]"

text \<open>
  A value of type \<open>interface{}\<close> in a request body: a string, the \<open>[]map[string]string\<close>
  of chat messages, or any other value a caller supplies (of type \<open>'a\<close>).
\<close>

datatype 'a any = StringValue string | MessagesValue "(string \<rightharpoonup> string) list" | OtherValue 'a

text \<open>The map literal that \<open>PrepareRequest\<close> starts from.\<close>

fun defaults :: "Provider \<Rightarrow> string \<Rightarrow> (string \<rightharpoonup> 'a any)" where
  "defaults (TongYiProvider apiKey model) prompt =
     [''model'' \<mapsto> StringValue model,
      ''messages'' \<mapsto> MessagesValue [[''role'' \<mapsto> ''user'', ''content'' \<mapsto> prompt]]]"
| "defaults (ZhiPuProvider apiKey model) prompt =
     [''model'' \<mapsto> StringValue model,
      ''messages'' \<mapsto> MessagesValue [[''role'' \<mapsto> ''user'', ''content'' \<mapsto> prompt]]]"
| "defaults (ZhiPuViewProvider apiKey model) prompt =
     [''model'' \<mapsto> StringValue model, ''prompt'' \<mapsto> StringValue prompt]"

text \<open>
  \<open>for k, v := range options { requestBody[k] = v }\<close>: the entries of the \<open>options\<close> map
  are visited one by one, in the order of the list (Go leaves the order unspecified; the
  keys of a map are distinct, and a \<open>nil\<close> map has no entries).
\<close>

fun range_assign :: "(string \<times> 'v) list \<Rightarrow> (string \<rightharpoonup> 'v) \<Rightarrow> (string \<rightharpoonup> 'v)" where
  "range_assign [] requestBody = requestBody"
| "range_assign ((k, v) # options) requestBody = range_assign options (requestBody(k \<mapsto> v))"

definition requestBody :: "Provider \<Rightarrow> string \<Rightarrow> (string \<times> 'a any) list \<Rightarrow> (string \<rightharpoonup> 'a any)" where
  "requestBody p prompt options = range_assign options (defaults p prompt)"

text \<open>
  \<open>json.Marshal\<close> belongs to the Go standard library; it is a parameter, and may fail.
\<close>

definition PrepareRequest ::
  "((string \<rightharpoonup> 'a any) \<Rightarrow> error + string) \<Rightarrow> Provider \<Rightarrow> string \<Rightarrow> (string \<times> 'a any) list
     \<Rightarrow> error + string" where
  "PrepareRequest json_Marshal p prompt options = json_Marshal (requestBody p prompt options)"

text \<open>The anonymous structs that the responses are decoded into.\<close>

record ChatChoice =
  Message_Content :: string

record ChatResponse =
  Choices :: "ChatChoice list"

record ImageData =
  Url :: string

record ContentFilterEntry =
  Role :: string
  Level :: int

record ImageResponse =
  Created :: int
  Data :: "ImageData list"
  ContentFilter :: "ContentFilterEntry list"

text \<open>
  \<open>json.Unmarshal\<close> into the two struct types is a parameter as well: it yields the
  decoded struct or the decoding error.
\<close>

record json_Unmarshal =
  into_ChatResponse :: "string \<Rightarrow> error + ChatResponse"
  into_ImageResponse :: "string \<Rightarrow> error + ImageResponse"

fun ParseResponse :: "json_Unmarshal \<Rightarrow> Provider \<Rightarrow> string \<Rightarrow> string \<times> error option" where
  "ParseResponse U (TongYiProvider apiKey model) body =
     (case into_ChatResponse U body of
        Inl err \<Rightarrow> ('''', Some (WrapError ''error parsing response: '' err))
      | Inr response \<Rightarrow>
         (case Choices response of
            [] \<Rightarrow> ('''', Some (ErrorString ''empty response from API''))
          | choice # rest \<Rightarrow>
             if Message_Content choice = ''''
             then ('''', Some (ErrorString ''empty response from API''))
             else (Message_Content choice, None)))"
| "ParseResponse U (ZhiPuProvider apiKey model) body =
     (case into_ChatResponse U body of
        Inl err \<Rightarrow> ('''', Some (WrapError ''error parsing response: '' err))
      | Inr response \<Rightarrow>
         (case Choices response of
            [] \<Rightarrow> ('''', Some (ErrorString ''empty response from API''))
          | choice # rest \<Rightarrow>
             if Message_Content choice = ''''
             then ('''', Some (ErrorString ''empty response from API''))
             else (Message_Content choice, None)))"
| "ParseResponse U (ZhiPuViewProvider apiKey model) body =
     (case into_ImageResponse U body of
        Inl err \<Rightarrow> ('''', Some (WrapError ''error parsing response: '' err))
      | Inr response \<Rightarrow>
         (case Data response of
            [] \<Rightarrow> ('''', Some (ErrorString ''empty response from API''))
          | d # rest \<Rightarrow>
             if Url d = ''''
             then ('''', Some (ErrorString ''empty response from API''))
             else (Url d, None)))"

section \<open>The LLM wrapper\<close>

text \<open>
  The embedded \<open>llm.LLM\<close> is an interface of package \<open>gollm/internal/llm\<close>. A value of
  it is modelled by its dynamic type and by what its \<open>Generate\<close> returns, under the
  caller's context, for a prompt text: the response, the full prompt and the error.
  \<open>*llm.LLMWithMemory\<close> is the one dynamic type the wrapper asks for; it carries the
  messages of its Memory Window.
\<close>

record Message =
  role :: string
  content :: string

type_synonym generate_fn = "string \<Rightarrow> string \<times> string \<times> error option"

datatype llm_LLM = LLMImpl generate_fn | LLMWithMemory generate_fn "Message list"

fun llm_Generate :: "llm_LLM \<Rightarrow> generate_fn" where
  "llm_Generate (LLMImpl g) = g"
| "llm_Generate (LLMWithMemory g history) = g"

type_synonym LogLevel = int

datatype Logger = Logger LogLevel

record MemoryOption =
  MaxTokens :: int

record Config =
  Provider :: string
  Model :: string
  DebugLevel :: LogLevel
  OllamaEndpoint :: string
  MemoryOption :: "MemoryOption option"

type_synonym ConfigOption = "Config \<Rightarrow> Config"

record llmImpl =
  LLM :: "llm_LLM option"
  logger :: "Logger option"
  provider :: string
  model :: string
  config :: Config

record generateConfig =
  useJSONSchema :: bool

type_synonym GenerateOption = "generateConfig \<Rightarrow> generateConfig"

definition WithJSONSchemaValidation :: GenerateOption where
  "WithJSONSchemaValidation = (\<lambda>c. c\<lparr>useJSONSchema := True\<rparr>)"

definition GetProvider :: "llmImpl \<Rightarrow> string" where
  "GetProvider l = provider l"

definition GetModel :: "llmImpl \<Rightarrow> string" where
  "GetModel l = model l"

text \<open>
  \<open>Generate\<close>. The prompt type with its \<open>String\<close> method and \<open>llm.Validate\<close> are outside
  the source at hand and are parameters. The receiver and its logger can be \<open>nil\<close>: the
  first statement calls \<open>l.logger.Debug\<close>, before the \<open>nil\<close> checks, so either panics.
  The log entries themselves are not part of the result.
\<close>

definition Generate ::
  "('p \<Rightarrow> string) \<Rightarrow> ('p \<Rightarrow> error option) \<Rightarrow> llmImpl option \<Rightarrow> 'p \<Rightarrow> GenerateOption list
     \<Rightarrow> (string \<times> error option) outcome" where
  "Generate prompt_String llm_Validate l prompt opts =
     (case l of
        None \<Rightarrow> Panics
      | Some impl \<Rightarrow>
         (case logger impl of
            None \<Rightarrow> Panics
          | Some lg \<Rightarrow>
             (case LLM impl of
                None \<Rightarrow> Returns ('''', Some (ErrorString ''internal LLM is nil''))
              | Some internal \<Rightarrow>
                 (let config = foldl (\<lambda>c opt. opt c) \<lparr>useJSONSchema = False\<rparr> opts in
                  case (if useJSONSchema config then llm_Validate prompt else None) of
                    Some err \<Rightarrow> Returns ('''', Some (WrapError ''invalid prompt: '' err))
                  | None \<Rightarrow>
                     (case llm_Generate internal (prompt_String prompt) of
                        (response, fullPrompt, Some err) \<Rightarrow> Returns ('''', Some err)
                      | (response, fullPrompt, None) \<Rightarrow>
                          Returns (CleanResponse response, None))))))"

text \<open>
  Modelled from the spec: the methods \<open>ClearMemory\<close> and \<open>GetMemory\<close> of
  \<open>llm.LLMWithMemory\<close>, which are outside the source at hand (\<open>ClearMemory()\<close> empties
  history unconditionally; the retained history is returned oldest first).
\<close>

fun LLMWithMemory_ClearMemory :: "llm_LLM \<Rightarrow> llm_LLM" where
  "LLMWithMemory_ClearMemory (LLMWithMemory g history) = LLMWithMemory g []"
| "LLMWithMemory_ClearMemory (LLMImpl g) = LLMImpl g"

fun LLMWithMemory_GetMemory :: "llm_LLM \<Rightarrow> Message list option" where
  "LLMWithMemory_GetMemory (LLMWithMemory g history) = Some history"
| "LLMWithMemory_GetMemory (LLMImpl g) = None"

text \<open>
  \<open>ClearMemory\<close> and \<open>GetMemory\<close> of the wrapper: the type assertion
  \<open>l.LLM.(*llm.LLMWithMemory)\<close> fails on a \<open>nil\<close> interface and on every other dynamic
  type. \<open>ClearMemory\<close> returns the instance as it is afterwards; \<open>GetMemory\<close> returns a
  slice, \<open>None\<close> being \<open>nil\<close>. Neither checks its receiver.
\<close>

definition ClearMemory :: "llmImpl option \<Rightarrow> llmImpl outcome" where
  "ClearMemory l =
     (case l of
        None \<Rightarrow> Panics
      | Some impl \<Rightarrow>
         (case LLM impl of
            Some (LLMWithMemory g history) \<Rightarrow>
              Returns (impl\<lparr>LLM := Some (LLMWithMemory_ClearMemory (LLMWithMemory g history))\<rparr>)
          | _ \<Rightarrow> Returns impl))"

definition GetMemory :: "llmImpl option \<Rightarrow> Message list option outcome" where
  "GetMemory l =
     (case l of
        None \<Rightarrow> Panics
      | Some impl \<Rightarrow>
         (case LLM impl of
            Some (LLMWithMemory g history) \<Rightarrow>
              Returns (LLMWithMemory_GetMemory (LLMWithMemory g history))
          | _ \<Rightarrow> Returns None))"

text \<open>
  \<open>NewLLM\<close>. Its collaborators that are outside the source at hand are the fields of
  \<open>llm_package\<close>: \<open>LoadConfig\<close>, \<open>toInternalConfig\<close> (the internal configuration is the
  type \<open>'ic\<close>, \<open>set_OllamaEndpoint\<close> assigns its field), \<open>llm.NewLLM\<close> and
  \<open>llm.NewLLMWithMemory\<close>. \<open>llm.NewLLM\<close> builds the plain Generate Pipeline of the
  specification, given here by its \<open>Generate\<close>; the Memory Window is the separate wrapper
  around it, so a value of the type \<open>*llm.LLMWithMemory\<close> comes from
  \<open>llm.NewLLMWithMemory\<close> and from nowhere else. \<open>llm.NewLogger\<close> is \<open>Logger\<close>.
\<close>

record 'ic llm_package =
  LoadConfig :: "error + Config"
  toInternalConfig :: "Config \<Rightarrow> 'ic"
  set_OllamaEndpoint :: "'ic \<Rightarrow> string \<Rightarrow> 'ic"
  llm_NewLLM :: "'ic \<Rightarrow> Logger \<Rightarrow> error + generate_fn"
  llm_NewLLMWithMemory :: "llm_LLM \<Rightarrow> int \<Rightarrow> string \<Rightarrow> Logger \<Rightarrow> error + generate_fn \<times> Message list"

definition NewLLM :: "'ic llm_package \<Rightarrow> ConfigOption list \<Rightarrow> error + llmImpl" where
  "NewLLM pkg opts =
     (case LoadConfig pkg of
        Inl err \<Rightarrow> Inl (WrapError ''failed to load config: '' err)
      | Inr config0 \<Rightarrow>
         (let config = foldl (\<lambda>c opt. opt c) config0 opts;
              logger = Logger (DebugLevel config);
              internalConfig0 = toInternalConfig pkg config;
              internalConfig = (if OllamaEndpoint config \<noteq> ''''
                                then set_OllamaEndpoint pkg internalConfig0 (OllamaEndpoint config)
                                else internalConfig0)
          in case llm_NewLLM pkg internalConfig logger of
               Inl err \<Rightarrow> Inl (WrapError ''failed to create internal LLM: '' err)
             | Inr base \<Rightarrow>
                (case MemoryOption config of
                   Some memoryOption \<Rightarrow>
                    (case llm_NewLLMWithMemory pkg (LLMImpl base) (MaxTokens memoryOption)
                            (Model config) logger of
                       Inl err \<Rightarrow> Inl (WrapError ''failed to create LLM with memory: '' err)
                     | Inr (g, history) \<Rightarrow>
                         Inr \<lparr>LLM = Some (LLMWithMemory g history), logger = Some logger,
                              provider = Provider config, model = Model config, config = config\<rparr>)
                 | None \<Rightarrow>
                     Inr \<lparr>LLM = Some (LLMImpl base), logger = Some logger,
                          provider = Provider config, model = Model config, config = config\<rparr>)))"

section \<open>The prompt optimizer\<close>

text \<open>
  The types of package \<open>llm\<close> that the public optimizer passes around. \<open>Metric\<close> and
  \<open>OptimizationEntry\<close> are aliases of the internal types; their fields are the ones
  \<open>defaultVerboseCallback\<close> prints. Scores are \<open>float64\<close> in the source and real numbers
  here: only their comparison with the threshold is used.
\<close>

record Metric =
  Metric_Name :: string
  Metric_Value :: real

record Remark =
  Point :: string
  Example :: string

record Suggestion =
  Description :: string
  ExpectedImpact :: real
  Reasoning :: string

record Assessment =
  OverallScore :: real
  OverallGrade :: string
  Metrics :: "Metric list"
  Strengths :: "Remark list"
  Weaknesses :: "Remark list"
  Suggestions :: "Suggestion list"

record llm_Prompt =
  Input :: string

record OptimizationEntry =
  entry_Prompt :: llm_Prompt
  entry_Assessment :: Assessment

text \<open>An \<open>IterationCallback\<close> is a Go function value; what it does is up to the caller.\<close>

typedecl IterationCallback

record DebugOptions =
  LogPrompts :: bool
  LogResponses :: bool

datatype DebugManager = NewDebugManager "Logger option" DebugOptions

text \<open>
  The two closures that the public package installs as the internal iteration callback:
  the one of \<open>WithIterationCallback\<close> calls \<open>po.callback\<close> when it is not \<open>nil\<close>; the one of
  \<open>NewPromptOptimizer\<close> calls \<open>po.callback\<close> when it is not \<open>nil\<close> and
  \<open>defaultVerboseCallback\<close> otherwise, when \<open>po.verbose\<close> holds.
\<close>

datatype llm_IterationCallback = CallbackIfSet | CallbackOrVerbose

text \<open>
  Modelled from the spec: the internal \<open>llm.PromptOptimizer\<close>, which is outside the source
  at hand. Its fields are the OptimizerConfig of the spec (iteration cap, max retries per
  LLM call, retry delay, memory size, optimization goal, rating system, custom metrics,
  score threshold), the seed prompt, the task description, the iteration callback and
  the OptimizationHistory; each \<open>With...\<close> method sets its field.
\<close>

record llm_PromptOptimizer =
  po_llm :: "llm_LLM option"
  po_debugManager :: DebugManager
  po_initialPrompt :: llm_Prompt
  po_taskDesc :: string
  po_iterations :: int
  po_maxRetries :: int
  po_retryDelay :: int
  po_memorySize :: int
  po_optimizationGoal :: string
  po_ratingSystem :: string
  po_customMetrics :: "Metric list"
  po_threshold :: real
  po_iterationCallback :: "llm_IterationCallback option"
  po_history :: "OptimizationEntry list"

record PromptOptimizer =
  internal :: llm_PromptOptimizer
  callback :: "IterationCallback option"
  memorySize :: int
  verbose :: bool

type_synonym OptimizerOption = "PromptOptimizer \<Rightarrow> PromptOptimizer"

definition WithVerbose :: OptimizerOption where
  "WithVerbose = (\<lambda>po. po\<lparr>verbose := True\<rparr>)"

definition WithIterationCallback :: "IterationCallback option \<Rightarrow> OptimizerOption" where
  "WithIterationCallback cb =
     (\<lambda>po. po\<lparr>callback := cb, verbose := False,
              internal := (internal po)\<lparr>po_iterationCallback := Some CallbackIfSet\<rparr>\<rparr>)"

definition WithMaxRetries :: "int \<Rightarrow> OptimizerOption" where
  "WithMaxRetries maxRetries = (\<lambda>po. po\<lparr>internal := (internal po)\<lparr>po_maxRetries := maxRetries\<rparr>\<rparr>)"

definition WithRetryDelay :: "int \<Rightarrow> OptimizerOption" where
  "WithRetryDelay delay = (\<lambda>po. po\<lparr>internal := (internal po)\<lparr>po_retryDelay := delay\<rparr>\<rparr>)"

definition WithMemorySize :: "int \<Rightarrow> OptimizerOption" where
  "WithMemorySize n =
     (\<lambda>po. po\<lparr>memorySize := n, internal := (internal po)\<lparr>po_memorySize := n\<rparr>\<rparr>)"

definition WithIterations :: "int \<Rightarrow> OptimizerOption" where
  "WithIterations iterations = (\<lambda>po. po\<lparr>internal := (internal po)\<lparr>po_iterations := iterations\<rparr>\<rparr>)"

definition WithCustomMetrics :: "Metric list \<Rightarrow> OptimizerOption" where
  "WithCustomMetrics metrics = (\<lambda>po. po\<lparr>internal := (internal po)\<lparr>po_customMetrics := metrics\<rparr>\<rparr>)"

definition WithOptimizationGoal :: "string \<Rightarrow> OptimizerOption" where
  "WithOptimizationGoal goal = (\<lambda>po. po\<lparr>internal := (internal po)\<lparr>po_optimizationGoal := goal\<rparr>\<rparr>)"

definition WithRatingSystem :: "string \<Rightarrow> OptimizerOption" where
  "WithRatingSystem system = (\<lambda>po. po\<lparr>internal := (internal po)\<lparr>po_ratingSystem := system\<rparr>\<rparr>)"

definition WithThreshold :: "real \<Rightarrow> OptimizerOption" where
  "WithThreshold threshold = (\<lambda>po. po\<lparr>internal := (internal po)\<lparr>po_threshold := threshold\<rparr>\<rparr>)"

text \<open>
  A value of the public \<open>LLM\<close> interface: \<open>nil\<close>, a \<open>*llmImpl\<close> (a pointer, which can itself
  be \<open>nil\<close>), or a value of any other type that implements the interface.
\<close>

typedecl foreign_LLM

datatype LLM_interface = NilInterface | PointerToLlmImpl "llmImpl option" | OtherLLM foreign_LLM

text \<open>
  \<open>NewPromptOptimizer\<close>. The constructor \<open>llm.NewPromptOptimizer\<close>, with the defaults it
  chooses, is outside the source at hand and is a parameter. \<open>None\<close> is the \<open>nil\<close> result.
\<close>

definition NewPromptOptimizer ::
  "(llm_LLM option \<Rightarrow> DebugManager \<Rightarrow> llm_Prompt \<Rightarrow> string \<Rightarrow> llm_PromptOptimizer)
     \<Rightarrow> LLM_interface \<Rightarrow> string \<Rightarrow> string \<Rightarrow> OptimizerOption list
     \<Rightarrow> PromptOptimizer option outcome" where
  "NewPromptOptimizer llm_NewPromptOptimizer l initialPrompt taskDesc opts =
     (case l of
        PointerToLlmImpl pointer \<Rightarrow>
         (case pointer of
            None \<Rightarrow> Panics
          | Some internalLLM \<Rightarrow>
             (let debugOptions = \<lparr>LogPrompts = True, LogResponses = True\<rparr>;
                  debugManager = NewDebugManager (logger internalLLM) debugOptions;
                  internalPrompt = \<lparr>Input = initialPrompt\<rparr>;
                  po0 = \<lparr>internal = llm_NewPromptOptimizer (LLM internalLLM) debugManager
                                       internalPrompt taskDesc,
                         callback = None, memorySize = 2, verbose = False\<rparr>;
                  po = foldl (\<lambda>po opt. opt po) po0 opts
              in Returns (Some
                   (if verbose po \<or> callback po \<noteq> None
                    then po\<lparr>internal := (internal po)\<lparr>po_iterationCallback := Some CallbackOrVerbose\<rparr>\<rparr>
                    else po))))
      | _ \<Rightarrow> Returns None)"

text \<open>
  \<open>OptimizePrompt\<close> of the public optimizer. The internal \<open>OptimizePrompt\<close> is a parameter:
  it returns a \<open>*Prompt\<close> (possibly \<open>nil\<close>) and an error, and leaves the internal optimizer
  in a new state. The public method returns its results and the optimizer afterwards.
\<close>

definition OptimizePrompt ::
  "(llm_PromptOptimizer \<Rightarrow> (llm_Prompt option \<times> error option) \<times> llm_PromptOptimizer)
     \<Rightarrow> PromptOptimizer \<Rightarrow> (string \<times> error option) outcome \<times> PromptOptimizer" where
  "OptimizePrompt internal_OptimizePrompt po =
     (case internal_OptimizePrompt (internal po) of
        ((optimizedPrompt, err), internal') \<Rightarrow>
          ((case err of
              Some e \<Rightarrow> Returns ('''', Some (WrapError ''optimization failed: '' e))
            | None \<Rightarrow>
               (case optimizedPrompt of
                  None \<Rightarrow> Panics
                | Some p \<Rightarrow> Returns (Input p, None))),
           po\<lparr>internal := internal'\<rparr>))"










section \<open>Notions used in the statements\<close>

text \<open>
  The caller requested structured (JSON) output when, after the generate options have
  been applied to a fresh \<open>generateConfig\<close>, \<open>useJSONSchema\<close> is set.
\<close>

definition structured_output_requested :: "GenerateOption list \<Rightarrow> bool" where
  "structured_output_requested opts = useJSONSchema (foldl (\<lambda>c opt. opt c) \<lparr>useJSONSchema = False\<rparr> opts)"

text \<open>
  A header map with exactly the two entries \<open>Content-Type\<close> and \<open>Authorization\<close>, the
  latter carrying the key \<open>k\<close> as a bearer token.
\<close>

definition two_headers :: "string \<Rightarrow> (string \<rightharpoonup> string) \<Rightarrow> bool" where
  "two_headers k h =
     (dom h = {''Content-Type'', ''Authorization''} \<and> card (dom h) = 2
      \<and> h ''Content-Type'' = Some ''application/json''
      \<and> h ''Authorization'' = Some (''Bearer '' @ k))"


section \<open>Concrete values\<close>

text \<open>
  A configuration, a wrapper around an LLM that answers every prompt with a fixed
  response and error, a JSON decoder that accepts only the body \<open>{}\<close>, caller options
  that override the model, an optimizer whose options set a cap of three iterations and
  the threshold 0.9, a grader that always answers 0.5, the collaborators of \<open>NewLLM\<close>, and
  a grader whose calls all fail in the second iteration.
\<close>

definition example_Config :: Config where
  "example_Config = \<lparr>Provider = ''zhipu'', Model = ''glm-4'', DebugLevel = 0,
                      OllamaEndpoint = '''', MemoryOption = None\<rparr>"

definition example_llmImpl :: "string \<Rightarrow> error option \<Rightarrow> llmImpl" where
  "example_llmImpl response err =
     \<lparr>LLM = Some (LLMImpl (\<lambda>prompt. (response, prompt, err))), logger = Some (Logger 0),
      provider = ''zhipu'', model = ''glm-4'', config = example_Config\<rparr>"

definition example_Unmarshal :: json_Unmarshal where
  "example_Unmarshal =
     \<lparr>into_ChatResponse = (\<lambda>body. if body = ''{}'' then Inr \<lparr>Choices = []\<rparr>
                                   else Inl (ErrorString ''unexpected end of JSON input'')),
      into_ImageResponse = (\<lambda>body. if body = ''{}''
                                    then Inr \<lparr>Created = 0, Data = [\<lparr>Url = ''''\<rparr>], ContentFilter = []\<rparr>
                                    else Inl (ErrorString ''unexpected end of JSON input''))\<rparr>"

definition example_options :: "(string \<times> nat any) list" where
  "example_options = [(''model'', StringValue ''qwen-max''), (''temperature'', OtherValue 1)]"

definition example_Marshal :: "(string \<rightharpoonup> nat any) \<Rightarrow> error + string" where
  "example_Marshal body =
     (case body ''model'' of
        Some (StringValue m) \<Rightarrow> Inr m
      | _ \<Rightarrow> Inl (ErrorString ''json: unsupported value''))"

definition example_internal :: llm_PromptOptimizer where
  "example_internal =
     \<lparr>po_llm = Some (LLMImpl (\<lambda>prompt. (''ok'', prompt, None))),
      po_debugManager = NewDebugManager (Some (Logger 0)) \<lparr>LogPrompts = True, LogResponses = True\<rparr>,
      po_initialPrompt = \<lparr>Input = ''write a haiku''\<rparr>,
      po_taskDesc = ''produce a vivid haiku about rain'',
      po_iterations = 5, po_maxRetries = 2, po_retryDelay = 0, po_memorySize = 2,
      po_optimizationGoal = '''', po_ratingSystem = ''numerical'', po_customMetrics = [],
      po_threshold = 3 / 4, po_iterationCallback = None, po_history = []\<rparr>"

definition example_optimizer :: PromptOptimizer where
  "example_optimizer =
     foldl (\<lambda>po opt. opt po)
       \<lparr>internal = example_internal, callback = None, memorySize = 2, verbose = False\<rparr>
       [WithIterations 3, WithThreshold (9 / 10)]"

definition example_package :: "unit llm_package" where
  "example_package =
     \<lparr>LoadConfig = Inr example_Config,
      toInternalConfig = (\<lambda>c. ()),
      set_OllamaEndpoint = (\<lambda>ic endpoint. ic),
      llm_NewLLM = (\<lambda>ic lg. Inr (\<lambda>prompt. (''ok'', prompt, None))),
      llm_NewLLMWithMemory = (\<lambda>base maxTokens m lg. Inr (llm_Generate base, []))\<rparr>"



section \<open>Properties of the string functions and of CleanResponse\<close>

lemma HasPrefix_single: "HasPrefix (x # s) [c] = (x = c)"
  by (simp add: HasPrefix_def)

lemma Index_single:
  "Index s [c] = (if c \<in> set s then int (length (takeWhile (\<lambda>x. x \<noteq> c) s)) else -1)"
  by (induction s) (auto simp: HasPrefix_single Let_def)

lemma LastIndex_range:
  "LastIndex s [c] \<noteq> -1 \<Longrightarrow> 0 \<le> LastIndex s [c] \<and> nat (LastIndex s [c]) < length s \<and> s ! nat (LastIndex s [c]) = c"
proof (induction s)
  case Nil
  then show ?case by simp
next
  case (Cons x s)
  show ?case
  proof (cases "LastIndex s [c] = -1")
    case True
    with Cons.prems show ?thesis by (auto simp: HasPrefix_single split: if_splits)
  next
    case False
    with Cons.IH have "0 \<le> LastIndex s [c]" "nat (LastIndex s [c]) < length s" "s ! nat (LastIndex s [c]) = c" by auto
    with False show ?thesis by (simp add: Let_def nat_add_distrib)
  qed
qed

lemma LastIndex_ge: "j < length s \<Longrightarrow> s ! j = c \<Longrightarrow> int j \<le> LastIndex s [c]"
proof (induction s arbitrary: j)
  case Nil
  then show ?case by simp
next
  case (Cons x s)
  show ?case
  proof (cases j)
    case 0
    with Cons.prems have "x = c" by simp
    have "LastIndex s [c] \<noteq> -1 \<Longrightarrow> 0 \<le> LastIndex s [c]" using LastIndex_range by blast
    with 0 \<open>x = c\<close> show ?thesis by (auto simp: Let_def HasPrefix_single)
  next
    case (Suc k)
    with Cons.prems have "k < length s" "s ! k = c" by auto
    from Cons.IH[OF this] have "int k \<le> LastIndex s [c]" .
    with Suc show ?thesis by (auto simp: Let_def)
  qed
qed

lemma TrimLeftSpace_id: "leading_space s = 0 \<Longrightarrow> TrimLeftSpace s = s"
  by simp

lemma TrimRightSpace_id: "trailing_space s = 0 \<Longrightarrow> TrimRightSpace s = s"
  by simp

lemma leading_space_brace: "leading_space (CHR ''{'' # s) = 0"
  by (simp add: leading_space_def space_encodings_def HasPrefix_def)

lemma HasSuffix_last: "HasSuffix s e \<Longrightarrow> e \<noteq> [] \<Longrightarrow> last s = last e"
  unfolding HasSuffix_def
  by (metis last_drop length_greater_0_conv diff_less length_0_conv not_le list.size(3) drop_eq_Nil)

lemma trailing_space_brace: "s \<noteq> [] \<Longrightarrow> last s = CHR ''}'' \<Longrightarrow> trailing_space s = 0"
proof -
  assume a: "s \<noteq> []" "last s = CHR ''}''"
  have "\<forall>e \<in> set space_encodings. e \<noteq> [] \<and> last e \<noteq> CHR ''}''"
    by (simp add: space_encodings_def)
  with a have "\<forall>e \<in> set space_encodings. \<not> HasSuffix s e"
    using HasSuffix_last by metis
  then have "find (\<lambda>e. HasSuffix s e) space_encodings = None"
    by (simp add: find_None_iff)
  then show ?thesis by (simp add: trailing_space_def)
qed

lemma LastIndex_last:
  assumes "s \<noteq> []" "last s = c"
  shows "LastIndex s [c] = int (length s) - 1"
proof -
  from assms have j: "length s - 1 < length s" "s ! (length s - 1) = c"
    by (simp_all add: last_conv_nth)
  from LastIndex_ge[OF j] have ge: "int (length s - 1) \<le> LastIndex s [c]" .
  then have "LastIndex s [c] \<noteq> -1" by linarith
  from LastIndex_range[OF this] have "nat (LastIndex s [c]) < length s" by simp
  with ge show ?thesis by linarith
qed

lemma braced_shape:
  assumes "2 \<le> length r" "hd r = a" "last r = b"
  shows "\<exists>m. r = a # m @ [b]"
proof -
  from assms obtain t where r: "r = a # t" by (cases r) auto
  with assms have "t \<noteq> []" by auto
  then have "t = butlast t @ [last t]" by simp
  moreover from r \<open>t \<noteq> []\<close> assms have "last t = b" by simp
  ultimately show ?thesis using r by metis
qed

lemma slice_braced:
  assumes "i < j" "j < length s" "s ! i = a" "s ! j = b"
  shows "\<exists>m. slice s (int i) (int j + 1) = a # m @ [b]"
proof -
  let ?r = "slice s (int i) (int j + 1)"
  have r: "?r = take (j + 1 - i) (drop i s)"
    using assms by (simp add: slice_def nat_diff_distrib' nat_add_distrib)
  have len: "length ?r = j + 1 - i" using assms by (simp add: r)
  have "hd ?r = a" using assms len by (simp add: r hd_conv_nth)
  moreover have "last ?r = b"
  proof -
    have "?r \<noteq> []" using len assms by auto
    then have "last ?r = ?r ! (j - i)" using len assms by (simp add: last_conv_nth)
    also have "\<dots> = s ! j" using assms by (simp add: r)
    finally show ?thesis using assms by simp
  qed
  moreover have "2 \<le> length ?r" using len assms by simp
  ultimately show ?thesis by (rule braced_shape[rotated])
qed

lemma TrimSpace_braced: "TrimSpace (CHR ''{'' # m @ [CHR ''}'']) = CHR ''{'' # m @ [CHR ''}'']"
proof -
  have "TrimLeftSpace (CHR ''{'' # m @ [CHR ''}'']) = CHR ''{'' # m @ [CHR ''}'']"
    by (rule TrimLeftSpace_id) (rule leading_space_brace)
  moreover have "TrimRightSpace (CHR ''{'' # m @ [CHR ''}'']) = CHR ''{'' # m @ [CHR ''}'']"
    by (rule TrimRightSpace_id) (rule trailing_space_brace, simp_all)
  ultimately show ?thesis by (simp add: TrimSpace_def)
qed

lemma CleanResponse_braced:
  "CleanResponse (CHR ''{'' # m @ [CHR ''}'']) = CHR ''{'' # m @ [CHR ''}'']"
proof -
  let ?r = "CHR ''{'' # m @ [CHR ''}'']"
  have p: "TrimPrefix ?r ''```json'' = ?r"
    by (simp add: TrimPrefix_def HasPrefix_def)
  have "\<not> HasSuffix ?r ''```''"
    using HasSuffix_last[of ?r "''```''"] by auto
  then have s: "TrimSuffix ?r ''```'' = ?r" by (simp add: TrimSuffix_def)
  have i: "Index ?r ''{'' = 0" by (simp add: HasPrefix_single)
  have l: "LastIndex ?r ''}'' = int (length m) + 1"
    using LastIndex_last[of ?r "CHR ''}''"] by simp
  have sl: "slice ?r 0 (int (length m) + 1 + 1) = ?r"
    by (simp add: slice_def nat_add_distrib)
  show ?thesis
    unfolding CleanResponse_def p s i l Let_def using sl TrimSpace_braced
    by simp
qed

lemma contains_object_TrimPrefix:
  assumes "contains_object s"
  shows "contains_object (TrimPrefix s ''```json'')"
proof (cases "HasPrefix s ''```json''")
  case False
  with assms show ?thesis by (simp add: TrimPrefix_def)
next
  case True
  then have "s = ''```json'' @ drop (length ''```json'') s"
    unfolding HasPrefix_def by (metis append_take_drop_id)
  then obtain t where s: "s = ''```json'' @ t" and t: "TrimPrefix s ''```json'' = t"
    using True by (simp add: TrimPrefix_def)
  from assms show ?thesis unfolding t contains_object_def by (simp add: s)
qed

lemma contains_object_TrimSuffix:
  assumes "contains_object s"
  shows "contains_object (TrimSuffix s ''```'')"
proof (cases "HasSuffix s ''```''")
  case False
  with assms show ?thesis by (simp add: TrimSuffix_def)
next
  case True
  let ?t = "take (length s - length ''```'') s"
  from True have s: "s = ?t @ ''```''"
    unfolding HasSuffix_def by (metis append_take_drop_id)
  have t: "TrimSuffix s ''```'' = ?t" using True by (simp add: TrimSuffix_def)
  from assms have "CHR ''}'' \<in> set (dropWhile (\<lambda>x. x \<noteq> CHR ''{'') (?t @ ''```''))"
    unfolding contains_object_def using s by simp
  then have "CHR ''}'' \<in> set (dropWhile (\<lambda>x. x \<noteq> CHR ''{'') ?t)"
    by (auto simp: dropWhile_append split: if_splits)
  then show ?thesis unfolding t contains_object_def .
qed

lemma contains_object_indices:
  assumes "contains_object s"
  shows "\<exists>i j. Index s ''{'' = int i \<and> LastIndex s ''}'' = int j \<and> i < j \<and> j < length s
          \<and> s ! i = CHR ''{'' \<and> s ! j = CHR ''}''"
proof -
  let ?P = "\<lambda>x. x \<noteq> CHR ''{''"
  let ?i = "length (takeWhile ?P s)"
  have d: "dropWhile ?P s = drop ?i s" by (rule dropWhile_eq_drop)
  from assms obtain k where k: "k < length (drop ?i s)" "drop ?i s ! k = CHR ''}''"
    unfolding contains_object_def d in_set_conv_nth by blast
  from k(1) have kl: "?i + k < length s" by simp
  with k(2) have sk: "s ! (?i + k) = CHR ''}''" by simp
  from kl have il: "?i < length s" by simp
  have si: "s ! ?i = CHR ''{''" using nth_length_takeWhile[OF il] by simp
  have mem: "CHR ''{'' \<in> set s" using il si nth_mem by fastforce
  then have I: "Index s ''{'' = int ?i" by (simp add: Index_single)
  have "k \<noteq> 0" using sk si by (cases k) auto
  from LastIndex_ge[OF kl sk] have ge: "int (?i + k) \<le> LastIndex s ''}''" .
  then have ne1: "LastIndex s ''}'' \<noteq> -1" by linarith
  define j where "j = nat (LastIndex s ''}'')"
  from LastIndex_range[OF ne1] have
    J: "LastIndex s ''}'' = int j" "j < length s" "s ! j = CHR ''}''"
    unfolding j_def by simp_all
  with ge \<open>k \<noteq> 0\<close> have "?i < j" by linarith
  with I J si show ?thesis by blast
qed

lemma CleanResponse_contains_object:
  assumes "contains_object s"
  shows "\<exists>m. CleanResponse s = CHR ''{'' # m @ [CHR ''}'']"
proof -
  let ?s2 = "TrimSuffix (TrimPrefix s ''```json'') ''```''"
  have "contains_object ?s2"
    using assms by (intro contains_object_TrimSuffix contains_object_TrimPrefix)
  from contains_object_indices[OF this] obtain i j where
    ij: "Index ?s2 ''{'' = int i" "LastIndex ?s2 ''}'' = int j" "i < j" "j < length ?s2"
        "?s2 ! i = CHR ''{''" "?s2 ! j = CHR ''}''" by blast
  from slice_braced[OF ij(3-6)] obtain m where
    m: "slice ?s2 (int i) (int j + 1) = CHR ''{'' # m @ [CHR ''}'']" by blast
  have "CleanResponse s = TrimSpace (slice ?s2 (int i) (int j + 1))"
    unfolding CleanResponse_def Let_def ij(1,2) using ij(3) by simp
  then show ?thesis unfolding m TrimSpace_braced by blast
qed


lemma HasPrefix_iff: "HasPrefix s pre = (\<exists>t. s = pre @ t)"
proof
  assume "HasPrefix s pre"
  then have "s = pre @ drop (length pre) s"
    unfolding HasPrefix_def by (metis append_take_drop_id)
  then show "\<exists>t. s = pre @ t" ..
next
  assume "\<exists>t. s = pre @ t"
  then show "HasPrefix s pre" by (auto simp: HasPrefix_def)
qed

lemma HasSuffix_iff: "HasSuffix s suf = (\<exists>t. s = t @ suf)"
proof
  assume "HasSuffix s suf"
  then have "s = take (length s - length suf) s @ suf"
    unfolding HasSuffix_def by (metis append_take_drop_id)
  then show "\<exists>t. s = t @ suf" ..
next
  assume "\<exists>t. s = t @ suf"
  then show "HasSuffix s suf" by (auto simp: HasSuffix_def)
qed

lemma space_encodings_nonempty: "e \<in> set space_encodings \<Longrightarrow> e \<noteq> []"
  by (auto simp: space_encodings_def)

lemma leading_space_zero: "(leading_space s = 0) = (\<forall>e \<in> set space_encodings. \<not> HasPrefix s e)"
proof (cases "find (\<lambda>e. HasPrefix s e) space_encodings")
  case None
  have "leading_space s = 0" unfolding leading_space_def None by simp
  moreover from None have "\<forall>e \<in> set space_encodings. \<not> HasPrefix s e"
    by (simp add: find_None_iff)
  ultimately show ?thesis by simp
next
  case (Some e)
  then have "e \<in> set space_encodings" "HasPrefix s e"
    by (auto simp: find_Some_iff)
  moreover have "leading_space s = length e" unfolding leading_space_def Some by simp
  ultimately show ?thesis using space_encodings_nonempty by auto
qed

lemma trailing_space_zero: "(trailing_space s = 0) = (\<forall>e \<in> set space_encodings. \<not> HasSuffix s e)"
proof (cases "find (\<lambda>e. HasSuffix s e) space_encodings")
  case None
  have "trailing_space s = 0" unfolding trailing_space_def None by simp
  moreover from None have "\<forall>e \<in> set space_encodings. \<not> HasSuffix s e"
    by (simp add: find_None_iff)
  ultimately show ?thesis by simp
next
  case (Some e)
  then have "e \<in> set space_encodings" "HasSuffix s e"
    by (auto simp: find_Some_iff)
  moreover have "trailing_space s = length e" unfolding trailing_space_def Some by simp
  ultimately show ?thesis using space_encodings_nonempty by auto
qed

lemma TrimLeftSpace_done: "leading_space (TrimLeftSpace s) = 0"
proof (induction s rule: TrimLeftSpace.induct)
  case (1 s)
  show ?case
  proof (cases "leading_space s = 0 \<or> s = []")
    case True
    then have "TrimLeftSpace s = s" by simp
    moreover have "leading_space [] = 0"
      using space_encodings_nonempty by (auto simp: leading_space_zero HasPrefix_def)
    ultimately show ?thesis using True by auto
  next
    case False
    then have "TrimLeftSpace s = TrimLeftSpace (drop (leading_space s) s)" by simp
    with 1 False show ?thesis by simp
  qed
qed

lemma TrimLeftSpace_suffix: "\<exists>a. s = a @ TrimLeftSpace s"
proof (induction s rule: TrimLeftSpace.induct)
  case (1 s)
  show ?case
  proof (cases "leading_space s = 0 \<or> s = []")
    case True
    then have "TrimLeftSpace s = s" by simp
    then show ?thesis by simp
  next
    case False
    then have eq: "TrimLeftSpace s = TrimLeftSpace (drop (leading_space s) s)" by simp
    from 1 False obtain a where "drop (leading_space s) s = a @ TrimLeftSpace (drop (leading_space s) s)"
      by blast
    then have "s = (take (leading_space s) s @ a) @ TrimLeftSpace s"
      unfolding eq by (metis append_take_drop_id append.assoc)
    then show ?thesis ..
  qed
qed

lemma TrimRightSpace_done: "trailing_space (TrimRightSpace s) = 0"
proof (induction s rule: TrimRightSpace.induct)
  case (1 s)
  show ?case
  proof (cases "trailing_space s = 0 \<or> s = []")
    case True
    then have "TrimRightSpace s = s" by simp
    moreover have "trailing_space [] = 0"
      using space_encodings_nonempty by (auto simp: trailing_space_zero HasSuffix_def)
    ultimately show ?thesis using True by auto
  next
    case False
    then have "TrimRightSpace s = TrimRightSpace (take (length s - trailing_space s) s)" by simp
    with 1 False show ?thesis by simp
  qed
qed

lemma TrimRightSpace_prefix: "\<exists>b. s = TrimRightSpace s @ b"
proof (induction s rule: TrimRightSpace.induct)
  case (1 s)
  show ?case
  proof (cases "trailing_space s = 0 \<or> s = []")
    case True
    then have "TrimRightSpace s = s" by simp
    then show ?thesis by simp
  next
    case False
    let ?t = "take (length s - trailing_space s) s"
    from False have eq: "TrimRightSpace s = TrimRightSpace ?t" by simp
    from 1 False obtain b where "?t = TrimRightSpace ?t @ b" by blast
    then have "s = TrimRightSpace s @ (b @ drop (length s - trailing_space s) s)"
      unfolding eq by (metis append_take_drop_id append.assoc)
    then show ?thesis ..
  qed
qed

lemma TrimSpace_sublist: "\<exists>a b. s = a @ TrimSpace s @ b"
proof -
  obtain a where a: "s = a @ TrimLeftSpace s" using TrimLeftSpace_suffix by blast
  obtain b where b: "TrimLeftSpace s = TrimRightSpace (TrimLeftSpace s) @ b"
    using TrimRightSpace_prefix by blast
  have "s = a @ TrimSpace s @ b" unfolding TrimSpace_def using a b by metis
  then show ?thesis by blast
qed

lemma TrimSpace_idempotent: "TrimSpace (TrimSpace s) = TrimSpace s"
proof -
  let ?y = "TrimLeftSpace s"
  let ?z = "TrimRightSpace ?y"
  obtain b where b: "?y = ?z @ b" using TrimRightSpace_prefix by blast
  have "leading_space ?y = 0" by (rule TrimLeftSpace_done)
  then have "\<forall>e \<in> set space_encodings. \<not> HasPrefix (?z @ b) e"
    unfolding leading_space_zero using b by simp
  then have "\<forall>e \<in> set space_encodings. \<not> HasPrefix ?z e"
    unfolding HasPrefix_iff by (metis append.assoc)
  then have "leading_space ?z = 0" unfolding leading_space_zero .
  then have l: "TrimLeftSpace ?z = ?z" by simp
  have "trailing_space ?z = 0" by (rule TrimRightSpace_done)
  then have r: "TrimRightSpace ?z = ?z" by simp
  show ?thesis unfolding TrimSpace_def l r ..
qed

lemma length_TrimSpace: "length (TrimSpace s) \<le> length s"
proof -
  obtain a b where "s = a @ TrimSpace s @ b" using TrimSpace_sublist by blast
  then have "length s = length a + length (TrimSpace s) + length b"
    by (metis length_append add.assoc)
  then show ?thesis by simp
qed

lemma contains_object_iff:
  "contains_object s = (\<exists>u v w. s = u @ CHR ''{'' # v @ CHR ''}'' # w)"
proof
  let ?P = "\<lambda>x. x \<noteq> CHR ''{''"
  assume c: "contains_object s"
  have ne: "dropWhile ?P s \<noteq> []"
  proof
    assume "dropWhile ?P s = []"
    with c show False unfolding contains_object_def by (simp only: list.set empty_iff)
  qed
  then have "hd (dropWhile ?P s) = CHR ''{''" using hd_dropWhile[of ?P s] by simp
  with ne obtain rest where d: "dropWhile ?P s = CHR ''{'' # rest" by (cases "dropWhile ?P s") auto
  with c have "CHR ''}'' \<in> set rest" unfolding contains_object_def by simp
  then obtain v w where "rest = v @ CHR ''}'' # w" by (meson split_list)
  with d have "takeWhile ?P s @ dropWhile ?P s = takeWhile ?P s @ CHR ''{'' # v @ CHR ''}'' # w"
    by simp
  then have "s = takeWhile ?P s @ CHR ''{'' # v @ CHR ''}'' # w"
    by (simp only: takeWhile_dropWhile_id)
  then show "\<exists>u v w. s = u @ CHR ''{'' # v @ CHR ''}'' # w" by blast
next
  assume "\<exists>u v w. s = u @ CHR ''{'' # v @ CHR ''}'' # w"
  then obtain u v w where s: "s = u @ CHR ''{'' # v @ CHR ''}'' # w" by blast
  show "contains_object s"
    unfolding contains_object_def s by (simp add: dropWhile_append)
qed

lemma clip_condition_contains_object:
  assumes "Index s ''{'' \<noteq> -1" and "Index s ''{'' < LastIndex s ''}''"
  shows "contains_object s"
proof -
  let ?P = "\<lambda>x. x \<noteq> CHR ''{''"
  let ?i = "length (takeWhile ?P s)"
  from assms(1) have I: "Index s ''{'' = int ?i" by (simp add: Index_single split: if_splits)
  with assms(2) have "LastIndex s ''}'' \<noteq> -1" by linarith
  from LastIndex_range[OF this] have
    L: "0 \<le> LastIndex s ''}''" "nat (LastIndex s ''}'') < length s"
       "s ! nat (LastIndex s ''}'') = CHR ''}''" by simp_all
  define j where "j = nat (LastIndex s ''}'')"
  have j: "?i < j" "j < length s" "s ! j = CHR ''}''"
    using L I assms(2) unfolding j_def by simp_all
  have "drop ?i s ! (j - ?i) = CHR ''}''" "j - ?i < length (drop ?i s)" using j by simp_all
  then have "CHR ''}'' \<in> set (drop ?i s)" by (metis nth_mem)
  then show ?thesis unfolding contains_object_def dropWhile_eq_drop[of ?P s] .
qed

lemma contains_object_mono:
  assumes "contains_object r"
  shows "contains_object (a @ r @ b)"
proof -
  from assms obtain u v w where "r = u @ CHR ''{'' # v @ CHR ''}'' # w"
    unfolding contains_object_iff by blast
  then have "a @ r @ b = (a @ u) @ CHR ''{'' # v @ CHR ''}'' # (w @ b)" by simp
  then show ?thesis unfolding contains_object_iff by blast
qed

lemma length_TrimSuffix: "length (TrimSuffix s suf) \<le> length s"
  by (simp add: TrimSuffix_def)

lemma length_CleanResponse:
  "length (CleanResponse s) \<le> length (TrimSuffix (TrimPrefix s ''```json'') ''```'')"
proof -
  let ?s2 = "TrimSuffix (TrimPrefix s ''```json'') ''```''"
  have "length (slice ?s2 lo hi) \<le> length ?s2" for lo hi by (simp add: slice_def)
  then have "length (if c then slice ?s2 lo hi else ?s2) \<le> length ?s2" for c lo hi by simp
  then show ?thesis
    unfolding CleanResponse_def Let_def using length_TrimSpace le_trans by blast
qed

lemma CleanResponse_shrinks_fenced:
  assumes "HasPrefix r ''```json'' \<or> HasSuffix r ''```''"
  shows "length (CleanResponse r) < length r"
proof -
  have "length (TrimSuffix (TrimPrefix r ''```json'') ''```'') < length r"
  proof (cases "HasPrefix r ''```json''")
    case True
    then have "length (TrimPrefix r ''```json'') < length r"
      by (auto simp: TrimPrefix_def HasPrefix_def)
    with length_TrimSuffix[of "TrimPrefix r ''```json''" "''```''"] show ?thesis by linarith
  next
    case False
    with assms have "HasSuffix r ''```''" by simp
    with False show ?thesis by (auto simp: TrimPrefix_def TrimSuffix_def HasSuffix_def)
  qed
  with length_CleanResponse[of r] show ?thesis by linarith
qed

lemma contains_object_untrimmed:
  assumes "contains_object (TrimSuffix (TrimPrefix s ''```json'') ''```'')"
  shows "contains_object s"
proof -
  let ?s2 = "TrimSuffix (TrimPrefix s ''```json'') ''```''"
  obtain a where a: "s = a @ TrimPrefix s ''```json''"
    by (cases "HasPrefix s ''```json''") (auto simp: TrimPrefix_def HasPrefix_iff)
  obtain b where b: "TrimPrefix s ''```json'' = ?s2 @ b"
    by (cases "HasSuffix (TrimPrefix s ''```json'') ''```''") (auto simp: TrimSuffix_def HasSuffix_iff)
  from contains_object_mono[OF assms, of a b] a b show ?thesis by simp
qed

lemma CleanResponse_without_object:
  assumes "\<not> contains_object s"
  shows "CleanResponse s = TrimSpace (TrimSuffix (TrimPrefix s ''```json'') ''```'')"
proof -
  let ?s2 = "TrimSuffix (TrimPrefix s ''```json'') ''```''"
  have "\<not> contains_object ?s2" using assms contains_object_untrimmed by blast
  then have nc: "\<not> (Index ?s2 ''{'' \<noteq> -1 \<and> LastIndex ?s2 ''}'' \<noteq> -1
               \<and> LastIndex ?s2 ''}'' > Index ?s2 ''{'')"
    using clip_condition_contains_object by blast
  show ?thesis unfolding CleanResponse_def Let_def if_not_P[OF nc] ..
qed

lemma CleanResponse_stable_unfenced:
  assumes "\<not> contains_object s"
    and "\<not> HasPrefix (CleanResponse s) ''```json''" and "\<not> HasSuffix (CleanResponse s) ''```''"
  shows "CleanResponse (CleanResponse s) = CleanResponse s"
proof -
  let ?s2 = "TrimSuffix (TrimPrefix s ''```json'') ''```''"
  let ?r = "CleanResponse s"
  have r: "?r = TrimSpace ?s2" using assms(1) by (rule CleanResponse_without_object)
  have "\<not> contains_object ?s2" using assms(1) contains_object_untrimmed by blast
  moreover obtain a b where "?s2 = a @ ?r @ b" unfolding r using TrimSpace_sublist by blast
  ultimately have nr: "\<not> contains_object ?r" using contains_object_mono[of ?r a b] by auto
  have t: "TrimSuffix (TrimPrefix ?r ''```json'') ''```'' = ?r"
    using assms(2,3) by (simp add: TrimPrefix_def TrimSuffix_def)
  have "CleanResponse ?r = TrimSpace ?r"
    using CleanResponse_without_object[OF nr] unfolding t .
  also have "\<dots> = ?r" unfolding r by (rule TrimSpace_idempotent)
  finally show ?thesis .
qed

text \<open>
  Claim C3, as amended. Cleaning a cleaned text changes nothing exactly when the cleaned
  text neither starts with the opening fence nor ends with the closing fence. This is so
  for every text in which a \<open>{\<close> is followed, later, by a \<open>}\<close>, in particular for every
  text that contains a JSON object, whether or not it is wrapped in code fences.
\<close>

theorem CleanResponse_idempotence:
  "(contains_object s \<longrightarrow> CleanResponse (CleanResponse s) = CleanResponse s)
   \<and> ((CleanResponse (CleanResponse s) = CleanResponse s)
        = (\<not> HasPrefix (CleanResponse s) ''```json'' \<and> \<not> HasSuffix (CleanResponse s) ''```''))"
proof (cases "contains_object s")
  case True
  from CleanResponse_contains_object[OF this] obtain m where
    m: "CleanResponse s = CHR ''{'' # m @ [CHR ''}'']" ..
  have idem: "CleanResponse (CleanResponse s) = CleanResponse s"
    unfolding m by (rule CleanResponse_braced)
  have "\<not> (HasPrefix (CleanResponse s) ''```json'' \<or> HasSuffix (CleanResponse s) ''```'')"
    using CleanResponse_shrinks_fenced[of "CleanResponse s"] idem by auto
  with idem show ?thesis by simp
next
  case False
  show ?thesis
  proof (cases "HasPrefix (CleanResponse s) ''```json'' \<or> HasSuffix (CleanResponse s) ''```''")
    case True
    from CleanResponse_shrinks_fenced[OF this]
    have "CleanResponse (CleanResponse s) \<noteq> CleanResponse s" by auto
    with True False show ?thesis by auto
  next
    case unfenced: False
    then have "CleanResponse (CleanResponse s) = CleanResponse s"
      using CleanResponse_stable_unfenced[OF False] by simp
    with unfenced False show ?thesis by simp
  qed
qed

theorem CleanResponse_idempotence_witness:
  "contains_object ''```json {a} ``` ''
   \<and> CleanResponse (CleanResponse ''```json {a} ``` '') = CleanResponse ''```json {a} ``` ''"
  using CleanResponse_idempotence[of "''```json {a} ``` ''"]
  by (simp add: contains_object_def)

text \<open>
  Claim C3, as stated, fails on texts with no JSON object in which the closing fence is
  followed by a space, be there nothing or the word \<open>null\<close> between the fences: the
  first cleaning leaves a fence at the end of the text, and the second one removes it.
\<close>

theorem CleanResponse_not_idempotent_counterexample:
  "CHR ''{'' \<notin> set ''```json ``` ''
   \<and> CleanResponse (CleanResponse ''```json ``` '') \<noteq> CleanResponse ''```json ``` ''
   \<and> CHR ''{'' \<notin> set ''```json null ``` ''
   \<and> CleanResponse (CleanResponse ''```json null ``` '') \<noteq> CleanResponse ''```json null ``` ''"
  by code_simp

section \<open>Generate\<close>

text \<open>
  Claim C1, as amended. On every successful generation \<open>Generate\<close> post-processes the
  response, whether or not the caller requested structured output: when the wrapper and
  its logger are there, the prompt passes the validation that a request for structured
  output adds, and the underlying LLM answers \<open>response\<close> with no error, the text
  returned is \<open>CleanResponse response\<close>.
\<close>

theorem Generate_cleans_every_success:
  assumes "logger impl = Some lg" and "LLM impl = Some inner"
    and "structured_output_requested opts \<longrightarrow> llm_Validate prompt = None"
    and "llm_Generate inner (prompt_String prompt) = (response, fullPrompt, None)"
  shows "Generate prompt_String llm_Validate (Some impl) prompt opts
           = Returns (CleanResponse response, None)"
  using assms by (auto simp: Generate_def structured_output_requested_def Let_def)

theorem Generate_cleans_every_success_witness:
  "logger (example_llmImpl '' hi '' None) = Some (Logger 0)
   \<and> \<not> structured_output_requested []
   \<and> Generate (\<lambda>p. p) (\<lambda>p. None) (Some (example_llmImpl '' hi '' None)) ''say hi'' []
        = Returns (''hi'', None)"
proof -
  have c: "CleanResponse '' hi '' = ''hi''" by code_simp
  show ?thesis
    using Generate_cleans_every_success[of "example_llmImpl '' hi '' None" "Logger 0"
        "LLMImpl (\<lambda>prompt. ('' hi '', prompt, None))" "[]" "\<lambda>p. None" "''say hi''" "\<lambda>p. p"
        "'' hi ''" "''say hi''"]
    by (simp add: example_llmImpl_def structured_output_requested_def c)
qed

text \<open>
  Claim C1, as stated, fails: with no generate option at all, so with structured output
  not requested, the response \<open>'' hi ''\<close> of the underlying LLM is not returned
  unmodified.
\<close>

theorem Generate_unstructured_counterexample:
  "\<not> structured_output_requested []
   \<and> Generate (\<lambda>p. p) (\<lambda>p. None) (Some (example_llmImpl '' hi '' None)) ''say hi'' []
        \<noteq> Returns ('' hi '', None)"
proof -
  have c: "CleanResponse '' hi '' = ''hi''" by code_simp
  show ?thesis
    by (simp add: Generate_def example_llmImpl_def structured_output_requested_def c)
qed

text \<open>
  Claim C7. When the underlying generation fails with \<open>err\<close>, \<open>Generate\<close> returns the
  empty text together with \<open>err\<close> itself, whatever response text came along with the
  error: the response is not cleaned and not returned.
\<close>

theorem Generate_failure_unchanged:
  assumes "logger impl = Some lg" and "LLM impl = Some inner"
    and "structured_output_requested opts \<longrightarrow> llm_Validate prompt = None"
    and "llm_Generate inner (prompt_String prompt) = (response, fullPrompt, Some err)"
  shows "Generate prompt_String llm_Validate (Some impl) prompt opts = Returns ('''', Some err)"
  using assms by (auto simp: Generate_def structured_output_requested_def Let_def)

theorem Generate_failure_unchanged_witness:
  "structured_output_requested [WithJSONSchemaValidation]
   \<and> Generate (\<lambda>p. p) (\<lambda>p. None) (Some (example_llmImpl ''{partial'' (Some (ErrorString ''timeout''))))
        ''say hi'' [WithJSONSchemaValidation]
        = Returns ('''', Some (ErrorString ''timeout''))"
  using Generate_failure_unchanged[of "example_llmImpl ''{partial'' (Some (ErrorString ''timeout''))"
        "Logger 0" "LLMImpl (\<lambda>prompt. (''{partial'', prompt, Some (ErrorString ''timeout'')))"
        "[WithJSONSchemaValidation]" "\<lambda>p. None" "''say hi''" "\<lambda>p. p"
        "''{partial''" "''say hi''" "ErrorString ''timeout''"]
  by (simp add: example_llmImpl_def structured_output_requested_def WithJSONSchemaValidation_def)

section \<open>Providers\<close>

text \<open>
  Claim C2. For each of the three providers: when decoding the body fails with \<open>e\<close>,
  \<open>ParseResponse\<close> returns the empty text and the error that wraps \<open>e\<close> (the
  MalformedResponse of the specification); when decoding succeeds and there is no choice
  or data entry, or the content or URL of the first one is empty, it returns the empty
  text and the error \<open>empty response from API\<close> (the EmptyResponse of the
  specification); and whenever the text returned is empty, an error is returned with it.
\<close>

theorem ParseResponse_reports_failures:
  "(into_ChatResponse U body = Inl e \<longrightarrow>
      ParseResponse U (TongYiProvider k m) body = ('''', Some (WrapError ''error parsing response: '' e))
    \<and> ParseResponse U (ZhiPuProvider k m) body = ('''', Some (WrapError ''error parsing response: '' e)))
   \<and> (into_ImageResponse U body = Inl e \<longrightarrow>
      ParseResponse U (ZhiPuViewProvider k m) body = ('''', Some (WrapError ''error parsing response: '' e)))
   \<and> (into_ChatResponse U body = Inr r \<and> (Choices r = [] \<or> Message_Content (hd (Choices r)) = '''') \<longrightarrow>
      ParseResponse U (TongYiProvider k m) body = ('''', Some (ErrorString ''empty response from API''))
    \<and> ParseResponse U (ZhiPuProvider k m) body = ('''', Some (ErrorString ''empty response from API'')))
   \<and> (into_ImageResponse U body = Inr r' \<and> (Data r' = [] \<or> Url (hd (Data r')) = '''') \<longrightarrow>
      ParseResponse U (ZhiPuViewProvider k m) body = ('''', Some (ErrorString ''empty response from API'')))
   \<and> (fst (ParseResponse U p body) = '''' \<longrightarrow> snd (ParseResponse U p body) \<noteq> None)"
  by (cases p) (auto split: sum.splits list.splits)

theorem ParseResponse_reports_failures_witness:
  "into_ChatResponse example_Unmarshal ''{'' = Inl (ErrorString ''unexpected end of JSON input'')
   \<and> ParseResponse example_Unmarshal (TongYiProvider ''key'' ''qwen'') ''{''
       = ('''', Some (WrapError ''error parsing response: '' (ErrorString ''unexpected end of JSON input'')))
   \<and> ParseResponse example_Unmarshal (ZhiPuViewProvider ''key'' ''cogview-3'') ''{''
       = ('''', Some (WrapError ''error parsing response: '' (ErrorString ''unexpected end of JSON input'')))
   \<and> into_ChatResponse example_Unmarshal ''{}'' = Inr \<lparr>Choices = []\<rparr>
   \<and> ParseResponse example_Unmarshal (ZhiPuProvider ''key'' ''glm-4'') ''{}''
       = ('''', Some (ErrorString ''empty response from API''))
   \<and> ParseResponse example_Unmarshal (ZhiPuViewProvider ''key'' ''cogview-3'') ''{}''
       = ('''', Some (ErrorString ''empty response from API''))"
  using ParseResponse_reports_failures[of example_Unmarshal "''{''"
          "ErrorString ''unexpected end of JSON input''" "''key''" "''qwen''" _ _
          "TongYiProvider ''key'' ''qwen''"]
        ParseResponse_reports_failures[of example_Unmarshal "''{''"
          "ErrorString ''unexpected end of JSON input''" "''key''" "''cogview-3''" _ _
          "TongYiProvider ''key'' ''qwen''"]
        ParseResponse_reports_failures[of example_Unmarshal "''{}''" _ "''key''" "''glm-4''"
          "\<lparr>Choices = []\<rparr>" _ "TongYiProvider ''key'' ''qwen''"]
        ParseResponse_reports_failures[of example_Unmarshal "''{}''" _ "''key''" "''cogview-3''" _
          "\<lparr>Created = 0, Data = [\<lparr>Url = ''''\<rparr>], ContentFilter = []\<rparr>" "TongYiProvider ''key'' ''qwen''"]
  by (simp add: example_Unmarshal_def)

lemma range_assign_absent: "k \<notin> fst ` set options \<Longrightarrow> range_assign options m k = m k"
  by (induction options arbitrary: m) auto

lemma range_assign_present:
  "distinct (map fst options) \<Longrightarrow> (k, v) \<in> set options \<Longrightarrow> range_assign options m k = Some v"
proof (induction options arbitrary: m)
  case Nil
  then show ?case by simp
next
  case (Cons kv options)
  obtain k' v' where kv: "kv = (k', v')" by (cases kv)
  show ?case
  proof (cases "(k, v) \<in> set options")
    case True
    with Cons show ?thesis by (simp add: kv)
  next
    case False
    with Cons.prems have eq: "k' = k" "v' = v" and notin: "k \<notin> fst ` set options"
      by (auto simp: kv)
    then show ?thesis by (simp add: kv range_assign_absent)
  qed
qed

text \<open>
  Claim C6. For every provider, prompt and caller-supplied options map (its entries in
  any order, the keys distinct), \<open>PrepareRequest\<close> serializes the map in which every key of
  the options carries the caller's value and every other key carries the provider's
  default.
\<close>

theorem PrepareRequest_caller_options_win:
  assumes "distinct (map fst options)"
  shows "PrepareRequest json_Marshal p prompt options = json_Marshal (requestBody p prompt options)
         \<and> (\<forall>k v. (k, v) \<in> set options \<longrightarrow> requestBody p prompt options k = Some v)
         \<and> (\<forall>k. k \<notin> fst ` set options \<longrightarrow> requestBody p prompt options k = defaults p prompt k)"
  using assms
  by (simp add: PrepareRequest_def requestBody_def range_assign_present range_assign_absent)

theorem PrepareRequest_caller_options_win_witness:
  "distinct (map fst example_options)
   \<and> PrepareRequest example_Marshal (TongYiProvider ''key'' ''qwen-turbo'') ''hello'' example_options
       = Inr ''qwen-max''
   \<and> requestBody (TongYiProvider ''key'' ''qwen-turbo'') ''hello'' example_options ''model''
       = Some (StringValue ''qwen-max'')
   \<and> requestBody (TongYiProvider ''key'' ''qwen-turbo'') ''hello'' example_options ''messages''
       = Some (MessagesValue [[''role'' \<mapsto> ''user'', ''content'' \<mapsto> ''hello'']])"
proof -
  have d: "distinct (map fst example_options)" by (simp add: example_options_def)
  from PrepareRequest_caller_options_win[OF d, of example_Marshal
         "TongYiProvider ''key'' ''qwen-turbo''" "''hello''"]
  have m: "PrepareRequest example_Marshal (TongYiProvider ''key'' ''qwen-turbo'') ''hello'' example_options
             = example_Marshal (requestBody (TongYiProvider ''key'' ''qwen-turbo'') ''hello'' example_options)"
    and p: "\<And>k v. (k, v) \<in> set example_options \<Longrightarrow>
              requestBody (TongYiProvider ''key'' ''qwen-turbo'') ''hello'' example_options k = Some v"
    and a: "\<And>k. k \<notin> fst ` set example_options \<Longrightarrow>
              requestBody (TongYiProvider ''key'' ''qwen-turbo'') ''hello'' example_options k
                = defaults (TongYiProvider ''key'' ''qwen-turbo'') ''hello'' k"
    by blast+
  have model: "requestBody (TongYiProvider ''key'' ''qwen-turbo'') ''hello'' example_options ''model''
                 = Some (StringValue ''qwen-max'')"
    by (rule p) (simp add: example_options_def)
  have messages: "requestBody (TongYiProvider ''key'' ''qwen-turbo'') ''hello'' example_options ''messages''
                 = Some (MessagesValue [[''role'' \<mapsto> ''user'', ''content'' \<mapsto> ''hello'']])"
    using a[of "''messages''"] by (simp add: example_options_def)
  show ?thesis using d m model messages by (simp add: example_Marshal_def)
qed

text \<open>
  Claim C8. For each of the three providers constructed with the API key \<open>k\<close>,
  \<open>Headers\<close> has exactly two entries: \<open>Content-Type\<close> is \<open>application/json\<close> and
  \<open>Authorization\<close> is \<open>Bearer\<close>, a space and \<open>k\<close>.
\<close>

theorem Headers_exactly_two:
  "two_headers k (Headers (NewTongYiProvider k m))
   \<and> two_headers k (Headers (NewZhiPuProvider k m))
   \<and> two_headers k (Headers (NewZhiPuViewProvider k m))"
  by (auto simp: two_headers_def NewTongYiProvider_def NewZhiPuProvider_def NewZhiPuViewProvider_def)

section \<open>The wrapper's memory\<close>

text \<open>
  Claim C10. On an instance that \<open>NewLLM\<close> constructs when the configuration, after the
  options, has no memory option, \<open>GetMemory\<close> returns \<open>nil\<close> and \<open>ClearMemory\<close> leaves the
  instance as it is; neither panics.
\<close>

theorem no_memory_GetMemory_ClearMemory:
  assumes "LoadConfig pkg = Inr config0"
    and "MemoryOption (foldl (\<lambda>c opt. opt c) config0 opts) = None"
    and "NewLLM pkg opts = Inr l"
  shows "GetMemory (Some l) = Returns None \<and> ClearMemory (Some l) = Returns l"
  using assms
  by (auto simp: NewLLM_def Let_def GetMemory_def ClearMemory_def split: sum.splits)

theorem no_memory_GetMemory_ClearMemory_witness:
  "LoadConfig example_package = Inr example_Config
   \<and> MemoryOption (foldl (\<lambda>c opt. opt c) example_Config [\<lambda>c. c\<lparr>Model := ''glm-4-air''\<rparr>]) = None
   \<and> (case NewLLM example_package [\<lambda>c. c\<lparr>Model := ''glm-4-air''\<rparr>] of
         Inl e \<Rightarrow> False
       | Inr l \<Rightarrow> GetMemory (Some l) = Returns None \<and> ClearMemory (Some l) = Returns l)"
proof -
  obtain l where l: "NewLLM example_package [\<lambda>c. c\<lparr>Model := ''glm-4-air''\<rparr>] = Inr l"
    by (simp add: NewLLM_def example_package_def Let_def example_Config_def)
  have c: "LoadConfig example_package = Inr example_Config" by (simp add: example_package_def)
  have m: "MemoryOption (foldl (\<lambda>c opt. opt c) example_Config [\<lambda>c. c\<lparr>Model := ''glm-4-air''\<rparr>]) = None"
    by (simp add: example_Config_def)
  from no_memory_GetMemory_ClearMemory[OF c m l] c m show ?thesis by (simp add: l)
qed

section \<open>The prompt optimizer\<close>

text \<open>
  Claim C9. For every value of the \<open>LLM\<close> interface that is not a \<open>*llmImpl\<close>, a value of
  another implementation or the \<open>nil\<close> interface, \<open>NewPromptOptimizer\<close> returns \<open>nil\<close>,
  whatever the initial prompt, the task description and the options.
\<close>

theorem NewPromptOptimizer_foreign_LLM_nil:
  "NewPromptOptimizer llm_NewPromptOptimizer (OtherLLM x) initialPrompt taskDesc opts = Returns None
   \<and> NewPromptOptimizer llm_NewPromptOptimizer NilInterface initialPrompt taskDesc opts = Returns None"
  by (simp add: NewPromptOptimizer_def)

text \<open>
  Claim C4, as amended. When the internal run fails with the error \<open>e\<close>, \<open>OptimizePrompt\<close>
  returns the empty text and an error that wraps \<open>e\<close>: its message is
  \<open>optimization failed:\<close> followed by the message of \<open>e\<close>, and unwrapping it gives \<open>e\<close>.
\<close>

theorem OptimizePrompt_wraps_failure:
  assumes "internal_OptimizePrompt (internal po) = ((optimizedPrompt, Some e), internal')"
  shows "OptimizePrompt internal_OptimizePrompt po
           = (Returns ('''', Some (WrapError ''optimization failed: '' e)), po\<lparr>internal := internal'\<rparr>)
         \<and> Unwrap (WrapError ''optimization failed: '' e) = Some e
         \<and> Error_text (WrapError ''optimization failed: '' e) = ''optimization failed: '' @ Error_text e"
  using assms by (simp add: OptimizePrompt_def)

theorem OptimizePrompt_wraps_failure_witness:
  "fst (OptimizePrompt (\<lambda>ipo. ((None, Some (ErrorString ''rate limited'')), ipo)) example_optimizer)
     = Returns ('''', Some (WrapError ''optimization failed: '' (ErrorString ''rate limited'')))"
  using OptimizePrompt_wraps_failure[of "\<lambda>ipo. ((None, Some (ErrorString ''rate limited'')), ipo)"
          example_optimizer None "ErrorString ''rate limited''" "internal example_optimizer"]
  by simp

text \<open>
  Claim C4, as stated, fails: the error that the caller receives is not the error of the
  internal run itself.
\<close>

theorem OptimizePrompt_error_unchanged_counterexample:
  "fst (OptimizePrompt (\<lambda>ipo. ((None, Some (ErrorString ''rate limited'')), ipo)) example_optimizer)
     \<noteq> Returns ('''', Some (ErrorString ''rate limited''))"
  by (simp add: OptimizePrompt_def)






end
